theory Spec2Isabelle
  imports Complex_Main
begin

section \<open>Conventions of the embedding\<close>

text \<open>
  The combat layer of the game client is written in TypeScript. Its \<open>number\<close> values are
  modelled as HOL reals: the arithmetic of the code is exact here, and the special values
  of IEEE doubles (NaN, signed zero, rounding) are outside the model. The one place where
  the code divides, \<open>1000 / fireRate\<close>, has its division by zero written out.

  Every call of \<open>Date.now()\<close> in the source is one explicit argument of the model
  function that makes the call. A \<open>throw\<close> is a value of the type \<open>outcome\<close>.

  A gun and a player state are never shared between two holders in a way the code relies
  on, so they are values, and a method that mutates \<open>this\<close> returns the updated
  object. The actors are different: a controller hands out and takes in references to
  position objects and route arrays, so the actor code runs on an explicit heap.

  A record field keeps its name in the source, except that a name which an earlier record
  of this theory already carries gets a short prefix (\<open>gun_name\<close>, \<open>cfg_health\<close>,
  \<open>player_health\<close>), as does \<open>id\<close>.
\<close>

datatype error = TypeError

datatype 'a outcome = Return 'a | Throw error

section \<open>GunController.ts\<close>

subsection \<open>Data\<close>

datatype GunType = Pistol | Rifle | Shotgun | Sniper

record GunStats =
  damage :: real
  fireRate :: real
  recoil :: real
  spread :: real
  magazineSize :: real
  reloadTime :: real

record GunConfig =
  gun_name :: string
  gun_type :: GunType
  stats :: GunStats

text \<open>
  The table \<open>PRESET_GUNS\<close>, a \<open>Record<string, GunConfig>\<close>, by its own entries:
  \<open>None\<close> for a key that the table does not define. (A lookup in the source also finds
  what the object inherits, such as \<open>toString\<close>; \<open>createPreset\<close> and
  \<open>getPresetConfig\<close>, which make that lookup for any key, are not part of this model.)
\<close>

definition PRESET_GUNS :: "string \<Rightarrow> GunConfig option" where
  "PRESET_GUNS key =
     (if key = ''pistol'' then
        Some \<lparr>gun_name = ''M9 Pistol'', gun_type = Pistol,
              stats = \<lparr>damage = 25, fireRate = 3, recoil = 0.2, spread = 0.05,
                       magazineSize = 15, reloadTime = 1500\<rparr>\<rparr>
      else if key = ''rifle'' then
        Some \<lparr>gun_name = ''M4A1 Rifle'', gun_type = Rifle,
              stats = \<lparr>damage = 35, fireRate = 8, recoil = 0.4, spread = 0.08,
                       magazineSize = 30, reloadTime = 2000\<rparr>\<rparr>
      else if key = ''shotgun'' then
        Some \<lparr>gun_name = ''M870 Shotgun'', gun_type = Shotgun,
              stats = \<lparr>damage = 80, fireRate = 1, recoil = 0.8, spread = 0.3,
                       magazineSize = 8, reloadTime = 2500\<rparr>\<rparr>
      else if key = ''sniper'' then
        Some \<lparr>gun_name = ''M24 Sniper'', gun_type = Sniper,
              stats = \<lparr>damage = 120, fireRate = 0.5, recoil = 0.9, spread = 0.02,
                       magazineSize = 5, reloadTime = 3000\<rparr>\<rparr>
      else None)"

text \<open>
  A callback (\<open>() => void\<close>) is opaque to the controller: the model gives each callback
  a token and records which tokens a method invokes, in order. A callback is taken not to
  call back into the controller.
\<close>

type_synonym callback = nat

record GunController =
  config :: GunConfig
  currentAmmo :: real
  isReloading :: bool
  lastFireTime :: real
  onFire :: "callback option"
  onReload :: "callback option"
  onEmpty :: "callback option"

text \<open>The optional call \<open>cb?.()\<close>: the list of callbacks it invokes.\<close>

definition call :: "callback option \<Rightarrow> callback list" where
  "call cb = (case cb of None \<Rightarrow> [] | Some f \<Rightarrow> [f])"

subsection \<open>Construction\<close>

definition GunController_new :: "GunConfig \<Rightarrow> GunController" where
  "GunController_new cfg =
     \<lparr>config = cfg, currentAmmo = magazineSize (stats cfg), isReloading = False,
      lastFireTime = 0, onFire = None, onReload = None, onEmpty = None\<rparr>"

definition setCallbacks ::
  "callback option \<Rightarrow> callback option \<Rightarrow> callback option \<Rightarrow> GunController \<Rightarrow> GunController"
where
  "setCallbacks cbFire cbReload cbEmpty g =
     g\<lparr>onFire := cbFire, onReload := cbReload, onEmpty := cbEmpty\<rparr>"

definition clamp :: "real \<Rightarrow> real \<Rightarrow> real \<Rightarrow> real" where
  "clamp v lo hi = max lo (min hi v)"

text \<open>
  \<open>config.name || "Unknown Weapon"\<close>: the empty string is the only falsy name. The
  type of a typed configuration is never falsy.
\<close>

definition validateConfig :: "GunConfig \<Rightarrow> GunConfig" where
  "validateConfig cfg =
     \<lparr>gun_name = (if gun_name cfg = [] then ''Unknown Weapon'' else gun_name cfg),
      gun_type = gun_type cfg,
      stats = \<lparr>damage = clamp (damage (stats cfg)) 1 200,
               fireRate = clamp (fireRate (stats cfg)) 0.1 20,
               recoil = clamp (recoil (stats cfg)) 0 1,
               spread = clamp (spread (stats cfg)) 0 1,
               magazineSize = clamp (of_int \<lfloor>magazineSize (stats cfg)\<rfloor>) 1 100,
               reloadTime = clamp (reloadTime (stats cfg)) 500 5000\<rparr>\<rparr>"

definition createFromJSON :: "GunConfig \<Rightarrow> GunController" where
  "createFromJSON jsonConfig = GunController_new (validateConfig jsonConfig)"

subsection \<open>fire\<close>

text \<open>
  The comparison \<open>now - lastFireTime < 1000 / fireRate\<close>. In the source \<open>1000 / 0\<close> is
  \<open>Infinity\<close>, above every elapsed time; in HOL \<open>1000 / 0 = 0\<close>, so the case is separate.
\<close>

definition within_fireInterval :: "real \<Rightarrow> real \<Rightarrow> bool" where
  "within_fireInterval elapsed rate =
     (if rate = 0 then True else elapsed < 1000 / rate)"

text \<open>The result of \<open>fire\<close>: the returned boolean, the callbacks invoked, the gun.\<close>

definition fire :: "real \<Rightarrow> GunController \<Rightarrow> bool \<times> callback list \<times> GunController" where
  "fire now g =
     (if isReloading g then (False, [], g)
      else if within_fireInterval (now - lastFireTime g) (fireRate (stats (config g)))
        then (False, [], g)
      else if currentAmmo g \<le> 0 then (False, call (onEmpty g), g)
      else (True, call (onFire g),
            g\<lparr>currentAmmo := currentAmmo g - 1, lastFireTime := now\<rparr>))"

subsection \<open>reload\<close>

text \<open>
  \<open>reload\<close> returns a promise. It is either resolved already, or it resolves when the
  timer that \<open>setTimeout\<close> has set runs its callback; \<open>Pending d\<close> carries the delay
  given to \<open>setTimeout\<close>.
\<close>

datatype promise = Resolved | Pending real

definition reload :: "GunController \<Rightarrow> promise \<times> callback list \<times> GunController" where
  "reload g =
     (if isReloading g then (Resolved, [], g)
      else (Pending (reloadTime (stats (config g))), call (onReload g),
            g\<lparr>isReloading := True\<rparr>))"

text \<open>The body of the timer callback of \<open>reload\<close>.\<close>

definition reload_timeout :: "GunController \<Rightarrow> GunController" where
  "reload_timeout g =
     g\<lparr>currentAmmo := magazineSize (stats (config g)), isReloading := False\<rparr>"

text \<open>
  The gun in its event loop: the controller, and the due times of the timers that wait.
  \<open>gun_reload now\<close> is a call of \<open>reload()\<close> at time \<open>now\<close>; \<open>gun_fire now\<close> a call of
  \<open>fire()\<close>; \<open>run_timers now\<close> is the event loop at time \<open>now\<close>, running the callback of
  every timer that is due. Time does not run backwards, so a timer set at \<open>t\<close> with a delay
  \<open>d\<close> runs at the first turn of the loop from \<open>t + d\<close> on (a negative delay, which
  \<open>setTimeout\<close> treats as zero, is due at once either way).
\<close>

record gun_loop =
  gun :: GunController
  timers :: "real list"

definition gun_fire :: "real \<Rightarrow> gun_loop \<Rightarrow> gun_loop" where
  "gun_fire now s = s\<lparr>gun := snd (snd (fire now (gun s)))\<rparr>"

definition gun_reload :: "real \<Rightarrow> gun_loop \<Rightarrow> gun_loop" where
  "gun_reload now s =
     (case reload (gun s) of
        (Resolved, _, g) \<Rightarrow> s\<lparr>gun := g\<rparr>
      | (Pending d, _, g) \<Rightarrow> s\<lparr>gun := g, timers := timers s @ [now + d]\<rparr>)"

definition run_timers :: "real \<Rightarrow> gun_loop \<Rightarrow> gun_loop" where
  "run_timers now s =
     \<lparr>gun = foldl (\<lambda>g _. reload_timeout g) (gun s) (filter (\<lambda>due. due \<le> now) (timers s)),
      timers = filter (\<lambda>due. \<not> due \<le> now) (timers s)\<rparr>"

text \<open>
  The calls a client can make on the gun, with the time of each; the event loop turns
  before each call, at the time of the call. \<open>Wait\<close> is a turn of the loop alone.
\<close>

datatype gun_call =
    Fire
  | Reload
  | SetCallbacks "callback option" "callback option" "callback option"
  | Wait

fun gun_step :: "gun_loop \<Rightarrow> real \<times> gun_call \<Rightarrow> gun_loop" where
  "gun_step s (now, Fire) = gun_fire now (run_timers now s)"
| "gun_step s (now, Reload) = gun_reload now (run_timers now s)"
| "gun_step s (now, SetCallbacks cbFire cbReload cbEmpty) =
     (let s1 = run_timers now s in s1\<lparr>gun := setCallbacks cbFire cbReload cbEmpty (gun s1)\<rparr>)"
| "gun_step s (now, Wait) = run_timers now s"

definition gun_run :: "GunConfig \<Rightarrow> (real \<times> gun_call) list \<Rightarrow> gun_loop" where
  "gun_run cfg calls = foldl gun_step \<lparr>gun = GunController_new cfg, timers = []\<rparr> calls"

text \<open>
  What the data model asks of a gun built from \<open>cfg\<close>: it keeps its configuration, and
  its ammunition is a whole number of rounds.
\<close>

definition gun_inv :: "GunConfig \<Rightarrow> GunController \<Rightarrow> bool" where
  "gun_inv cfg g = (config g = cfg \<and> currentAmmo g \<in> \<nat>)"

text \<open>
  A configuration with half a round in the magazine and otherwise the values of the rifle.
  The constructor takes any configuration as it is; only \<open>validateConfig\<close> rounds and
  clamps.
\<close>

definition half_round_config :: GunConfig where
  "half_round_config =
     \<lparr>gun_name = ''Half round'', gun_type = Rifle,
      stats = \<lparr>damage = 35, fireRate = 8, recoil = 0.4, spread = 0.08,
               magazineSize = 1 / 2, reloadTime = 2000\<rparr>\<rparr>"

section \<open>NPCSystem.ts\<close>

subsection \<open>Data and heap\<close>

datatype NPCState = Idle | Patrol | Aggressive

record NPCPosition =
  x :: real
  y :: real

type_synonym ref = nat

text \<open>
  An \<open>NPC\<close> object holds its position and its patrol route by reference: \<open>position\<close>
  is the address of a position object, \<open>patrolPoints\<close> the address of an array (absent
  when the field is \<open>undefined\<close>). \<open>currentPatrolIndex\<close> is set to 0 by the constructor
  and only ever advanced modulo a length, so it is a natural number.
\<close>

record NPC =
  npc_id :: string
  name :: string
  state :: NPCState
  position :: ref
  health :: real
  maxHealth :: real
  detectionRange :: real
  attackRange :: real
  speed :: real
  patrolPoints :: "ref option"
  currentPatrolIndex :: nat

record NPCConfig =
  cfg_name :: string
  cfg_health :: "real option"
  cfg_detectionRange :: "real option"
  cfg_attackRange :: "real option"
  cfg_speed :: "real option"
  cfg_patrolPoints :: "ref option"

definition DEFAULT_NPC_CONFIG_health :: real where
  "DEFAULT_NPC_CONFIG_health = 100"

definition DEFAULT_NPC_CONFIG_detectionRange :: real where
  "DEFAULT_NPC_CONFIG_detectionRange = 150"

definition DEFAULT_NPC_CONFIG_attackRange :: real where
  "DEFAULT_NPC_CONFIG_attackRange = 50"

definition DEFAULT_NPC_CONFIG_speed :: real where
  "DEFAULT_NPC_CONFIG_speed = 2"

record NPCController =
  npc :: ref
  stateTransitionTime :: real
  lastUpdateTime :: real

text \<open>
  The heap: one store for each kind of object, and the next free address. An array holds
  its waypoints by value: the controller only reads them, and a caller's write to a
  waypoint is a write to the array's cell.
\<close>

record heap =
  controllers :: "ref \<Rightarrow> NPCController"
  npc_objs :: "ref \<Rightarrow> NPC"
  positions :: "ref \<Rightarrow> NPCPosition"
  arrays :: "ref \<Rightarrow> NPCPosition list"
  next_ref :: ref

text \<open>The heap in which nothing is allocated yet; no cell of it is read before it is written.\<close>

definition heap0 :: heap where
  "heap0 =
     \<lparr>controllers = (\<lambda>_. \<lparr>npc = 0, stateTransitionTime = 0, lastUpdateTime = 0\<rparr>),
      npc_objs = (\<lambda>_. \<lparr>npc_id = [], name = [], state = Idle, position = 0, health = 0,
                         maxHealth = 0, detectionRange = 0, attackRange = 0, speed = 0,
                         patrolPoints = None, currentPatrolIndex = 0\<rparr>),
      positions = (\<lambda>_. \<lparr>x = 0, y = 0\<rparr>),
      arrays = (\<lambda>_. []),
      next_ref = 0\<rparr>"

text \<open>Object and array literals allocate.\<close>

definition new_position :: "NPCPosition \<Rightarrow> heap \<Rightarrow> ref \<times> heap" where
  "new_position p h =
     (next_ref h, h\<lparr>positions := (positions h)(next_ref h := p), next_ref := Suc (next_ref h)\<rparr>)"

definition new_array :: "NPCPosition list \<Rightarrow> heap \<Rightarrow> ref \<times> heap" where
  "new_array ps h =
     (next_ref h, h\<lparr>arrays := (arrays h)(next_ref h := ps), next_ref := Suc (next_ref h)\<rparr>)"

definition new_npc :: "NPC \<Rightarrow> heap \<Rightarrow> ref \<times> heap" where
  "new_npc n h =
     (next_ref h, h\<lparr>npc_objs := (npc_objs h)(next_ref h := n), next_ref := Suc (next_ref h)\<rparr>)"

definition new_controller :: "NPCController \<Rightarrow> heap \<Rightarrow> ref \<times> heap" where
  "new_controller c h =
     (next_ref h,
      h\<lparr>controllers := (controllers h)(next_ref h := c), next_ref := Suc (next_ref h)\<rparr>)"

text \<open>\<open>this.npc\<close>, read and written through the controller at address \<open>this\<close>.\<close>

definition this_npc :: "ref \<Rightarrow> heap \<Rightarrow> NPC" where
  "this_npc this h = npc_objs h (npc (controllers h this))"

definition set_this_npc :: "ref \<Rightarrow> NPC \<Rightarrow> heap \<Rightarrow> heap" where
  "set_this_npc this n h = h\<lparr>npc_objs := (npc_objs h)(npc (controllers h this) := n)\<rparr>"

subsection \<open>NPCController\<close>

text \<open>
  The constructor copies the position it is given (\<open>{ ...position }\<close>) and keeps the
  route array of the configuration as it is, by reference. The test
  \<open>config.patrolPoints ? "patrol" : "idle"\<close> is a test for a route being there: every
  array is truthy, the empty one too.
\<close>

definition NPCController_new ::
  "string \<Rightarrow> NPCPosition \<Rightarrow> NPCConfig \<Rightarrow> real \<Rightarrow> heap \<Rightarrow> ref \<times> heap"
where
  "NPCController_new ident pos cfg now h =
     (let (p, h1) = new_position pos h;
          hp = (case cfg_health cfg of None \<Rightarrow> DEFAULT_NPC_CONFIG_health | Some v \<Rightarrow> v);
          (n, h2) = new_npc
            \<lparr>npc_id = ident,
             name = cfg_name cfg,
             state = (if cfg_patrolPoints cfg \<noteq> None then Patrol else Idle),
             position = p,
             health = hp,
             maxHealth = hp,
             detectionRange = (case cfg_detectionRange cfg of
                                 None \<Rightarrow> DEFAULT_NPC_CONFIG_detectionRange | Some v \<Rightarrow> v),
             attackRange = (case cfg_attackRange cfg of
                              None \<Rightarrow> DEFAULT_NPC_CONFIG_attackRange | Some v \<Rightarrow> v),
             speed = (case cfg_speed cfg of None \<Rightarrow> DEFAULT_NPC_CONFIG_speed | Some v \<Rightarrow> v),
             patrolPoints = cfg_patrolPoints cfg,
             currentPatrolIndex = 0\<rparr> h1
      in new_controller \<lparr>npc = n, stateTransitionTime = 0, lastUpdateTime = now\<rparr> h2)"

definition getDistanceTo :: "NPCPosition \<Rightarrow> ref \<Rightarrow> heap \<Rightarrow> real" where
  "getDistanceTo target this h =
     (let p = positions h (position (this_npc this h));
          dx = x target - x p;
          dy = y target - y p
      in sqrt (dx * dx + dy * dy))"

text \<open>\<open>tnow\<close> is the reading of the clock inside \<open>transitionTo\<close>.\<close>

definition transitionTo :: "NPCState \<Rightarrow> real \<Rightarrow> ref \<Rightarrow> heap \<Rightarrow> heap" where
  "transitionTo newState tnow this h =
     (if state (this_npc this h) \<noteq> newState then
        (let h1 = set_this_npc this ((this_npc this h)\<lparr>state := newState\<rparr>) h
         in h1\<lparr>controllers :=
                 (controllers h1)(this := (controllers h1 this)\<lparr>stateTransitionTime := tnow\<rparr>)\<rparr>)
      else h)"

text \<open>
  \<open>moveTowards\<close> reads the target before it writes the position, so the target is passed
  by value.
\<close>

definition moveTowards :: "NPCPosition \<Rightarrow> real \<Rightarrow> ref \<Rightarrow> heap \<Rightarrow> heap" where
  "moveTowards target deltaTime this h =
     (let n = this_npc this h;
          p = positions h (position n);
          dx = x target - x p;
          dy = y target - y p;
          distance = sqrt (dx * dx + dy * dy)
      in if distance > 0 then
           (let moveDistance = speed n * deltaTime * 60;
                ratio = min (moveDistance / distance) 1
            in h\<lparr>positions :=
                   (positions h)(position n := \<lparr>x = x p + dx * ratio, y = y p + dy * ratio\<rparr>)\<rparr>)
         else h)"

definition handleIdleState :: "real \<Rightarrow> real \<Rightarrow> ref \<Rightarrow> heap \<Rightarrow> heap" where
  "handleIdleState distanceToPlayer tnow this h =
     (if distanceToPlayer \<le> detectionRange (this_npc this h)
      then transitionTo Aggressive tnow this h else h)"

text \<open>
  Reading the route at an index beyond its end gives \<open>undefined\<close>, and \<open>getDistanceTo\<close>
  then throws a \<open>TypeError\<close> at \<open>target.x\<close>. The index is always inside the route the
  controller last saw; it can be outside only after the holder of the array has shortened
  it.
\<close>

definition handlePatrolState :: "real \<Rightarrow> real \<Rightarrow> real \<Rightarrow> ref \<Rightarrow> heap \<Rightarrow> unit outcome \<times> heap" where
  "handlePatrolState distanceToPlayer deltaTime tnow this h =
     (let n = this_npc this h
      in if distanceToPlayer \<le> detectionRange n
         then (Return (), transitionTo Aggressive tnow this h)
         else (case patrolPoints n of
                 None \<Rightarrow> (Return (), h)
               | Some a \<Rightarrow>
                   (let pts = arrays h a
                    in if length pts > 0 then
                         (if currentPatrolIndex n < length pts then
                            (let targetPoint = pts ! currentPatrolIndex n;
                                 distanceToTarget = getDistanceTo targetPoint this h
                             in if distanceToTarget < 5
                                then (Return (),
                                      set_this_npc this
                                        (n\<lparr>currentPatrolIndex :=
                                             (currentPatrolIndex n + 1) mod length pts\<rparr>) h)
                                else (Return (), moveTowards targetPoint deltaTime this h))
                          else (Throw TypeError, h))
                       else (Return (), h))))"

definition handleAggressiveState ::
  "NPCPosition \<Rightarrow> real \<Rightarrow> real \<Rightarrow> real \<Rightarrow> ref \<Rightarrow> heap \<Rightarrow> heap"
where
  "handleAggressiveState playerPosition distanceToPlayer deltaTime tnow this h =
     (let n = this_npc this h
      in if distanceToPlayer > detectionRange n * 1.5
         then transitionTo (if patrolPoints n \<noteq> None then Patrol else Idle) tnow this h
         else if distanceToPlayer > attackRange n
         then moveTowards playerPosition deltaTime this h
         else h)"

text \<open>
  \<open>update now tnow playerPosition\<close>: \<open>now\<close> is the reading of the clock at the start of
  \<open>update\<close>, \<open>tnow\<close> the one inside \<open>transitionTo\<close>. The result is whether the call
  returned or threw, and the heap as the call left it.
\<close>

definition update :: "real \<Rightarrow> real \<Rightarrow> NPCPosition \<Rightarrow> ref \<Rightarrow> heap \<Rightarrow> unit outcome \<times> heap" where
  "update now tnow playerPosition this h =
     (let deltaTime = (now - lastUpdateTime (controllers h this)) / 1000;
          h1 = h\<lparr>controllers :=
                   (controllers h)(this := (controllers h this)\<lparr>lastUpdateTime := now\<rparr>)\<rparr>;
          distanceToPlayer = getDistanceTo playerPosition this h1
      in case state (this_npc this h1) of
           Idle \<Rightarrow> (Return (), handleIdleState distanceToPlayer tnow this h1)
         | Patrol \<Rightarrow> handlePatrolState distanceToPlayer deltaTime tnow this h1
         | Aggressive \<Rightarrow>
             (Return (),
              handleAggressiveState playerPosition distanceToPlayer deltaTime tnow this h1))"

definition takeDamage :: "real \<Rightarrow> real \<Rightarrow> ref \<Rightarrow> heap \<Rightarrow> bool \<times> heap" where
  "takeDamage amount tnow this h =
     (let n = this_npc this h;
          h1 = set_this_npc this (n\<lparr>health := max 0 (health n - amount)\<rparr>) h;
          h2 = (if state (this_npc this h1) \<noteq> Aggressive
                then transitionTo Aggressive tnow this h1 else h1)
      in (health (this_npc this h2) \<le> 0, h2))"

definition heal :: "real \<Rightarrow> ref \<Rightarrow> heap \<Rightarrow> heap" where
  "heal amount this h =
     (let n = this_npc this h
      in set_this_npc this (n\<lparr>health := min (maxHealth n) (health n + amount)\<rparr>) h)"

definition getState :: "ref \<Rightarrow> heap \<Rightarrow> NPCState" where
  "getState this h = state (this_npc this h)"

text \<open>\<open>{ ...this.npc.position }\<close>: a new position object with the same coordinates.\<close>

definition getPosition :: "ref \<Rightarrow> heap \<Rightarrow> ref \<times> heap" where
  "getPosition this h = new_position (positions h (position (this_npc this h))) h"

definition getHealth :: "ref \<Rightarrow> heap \<Rightarrow> real" where
  "getHealth this h = health (this_npc this h)"

definition getMaxHealth :: "ref \<Rightarrow> heap \<Rightarrow> real" where
  "getMaxHealth this h = maxHealth (this_npc this h)"

text \<open>
  \<open>{ ...this.npc }\<close>: a new \<open>NPC\<close> object with the same field values. The fields
  \<open>position\<close> and \<open>patrolPoints\<close> are references, so the new object points to the
  position object and the route array of the actor itself.
\<close>

definition getNPC :: "ref \<Rightarrow> heap \<Rightarrow> ref \<times> heap" where
  "getNPC this h = new_npc (this_npc this h) h"

definition isInAttackRange :: "NPCPosition \<Rightarrow> ref \<Rightarrow> heap \<Rightarrow> bool" where
  "isInAttackRange playerPosition this h =
     (getDistanceTo playerPosition this h \<le> attackRange (this_npc this h))"

definition canAttack :: "ref \<Rightarrow> heap \<Rightarrow> bool" where
  "canAttack this h = (state (this_npc this h) = Aggressive \<and> health (this_npc this h) > 0)"

subsection \<open>NPCManager\<close>

text \<open>The \<open>Map\<close> from id to controller; the order of its entries is not modelled.\<close>

record NPCManager =
  npcs :: "string \<rightharpoonup> ref"

definition NPCManager_new :: NPCManager where
  "NPCManager_new = \<lparr>npcs = Map.empty\<rparr>"

text \<open>
  \<open>spawnNPC\<close> has no \<open>throw\<close> and no test of the id: \<open>Map.set\<close> stores the new
  controller under the id whether or not the id has an entry. The result is the outcome of
  the call (always a return, of the new controller), the manager and the heap.
\<close>

definition spawnNPC ::
  "string \<Rightarrow> NPCPosition \<Rightarrow> NPCConfig \<Rightarrow> real \<Rightarrow> NPCManager \<Rightarrow> heap
   \<Rightarrow> ref outcome \<times> NPCManager \<times> heap"
where
  "spawnNPC ident pos cfg now m h =
     (let (controller, h1) = NPCController_new ident pos cfg now h
      in (Return controller, m\<lparr>npcs := (npcs m)(ident \<mapsto> controller)\<rparr>, h1))"

definition removeNPC :: "string \<Rightarrow> NPCManager \<Rightarrow> bool \<times> NPCManager" where
  "removeNPC ident m = (ident \<in> dom (npcs m), m\<lparr>npcs := (npcs m)(ident := None)\<rparr>)"

definition manager_getNPC :: "string \<Rightarrow> NPCManager \<Rightarrow> ref option" where
  "manager_getNPC ident m = npcs m ident"

subsection \<open>What an actor is, seen from outside\<close>

text \<open>
  The state of the actor behind the controller at \<open>this\<close>: the fields of the controller,
  the fields of its \<open>NPC\<close> object, the coordinates in its position object and the
  waypoints in its route array.
\<close>

definition actor_state ::
  "ref \<Rightarrow> heap \<Rightarrow> NPCController \<times> NPC \<times> NPCPosition \<times> NPCPosition list option" where
  "actor_state this h =
     (controllers h this, this_npc this h, positions h (position (this_npc this h)),
      map_option (arrays h) (patrolPoints (this_npc this h)))"

text \<open>The objects of the actor are allocated: their addresses are below the next free one.\<close>

definition allocated :: "ref \<Rightarrow> heap \<Rightarrow> bool" where
  "allocated this h =
     (this < next_ref h \<and> npc (controllers h this) < next_ref h
      \<and> position (this_npc this h) < next_ref h)"

subsection \<open>Two actors and a registry\<close>

text \<open>
  A hostile with the default values, as \<open>createEnemySquad\<close> spawns them apart from its
  random health and speed, and a guard with the configuration that
  \<open>createPatrollingGuard\<close> passes to \<open>spawnNPC\<close>, each alone in a fresh heap at the
  origin. The hostile's controller is at address 2; the guard's route is at address 0 and
  its controller at address 3.
\<close>

definition hostile_config :: NPCConfig where
  "hostile_config =
     \<lparr>cfg_name = ''Hostile 1'', cfg_health = None, cfg_detectionRange = None,
      cfg_attackRange = None, cfg_speed = None, cfg_patrolPoints = None\<rparr>"

definition guard_config :: "ref \<Rightarrow> NPCConfig" where
  "guard_config patrolPoints_ref =
     \<lparr>cfg_name = ''Guard'', cfg_health = Some 100, cfg_detectionRange = Some 200,
      cfg_attackRange = None, cfg_speed = Some 1.5, cfg_patrolPoints = Some patrolPoints_ref\<rparr>"

definition hostile_heap :: heap where
  "hostile_heap = snd (NPCController_new ''e1'' \<lparr>x = 0, y = 0\<rparr> hostile_config 0 heap0)"

definition guard_heap :: "NPCPosition list \<Rightarrow> heap" where
  "guard_heap route =
     (let (a, h) = new_array route heap0
      in snd (NPCController_new ''g1'' \<lparr>x = 0, y = 0\<rparr> (guard_config a) 0 h))"

text \<open>Two calls of \<open>spawnNPC\<close> with the same id on a new registry.\<close>

definition spawn_twice :: "ref outcome \<times> NPCManager \<times> heap" where
  "spawn_twice =
     (let (r1, m1, h1) =
            spawnNPC ''enemy_1'' \<lparr>x = 0, y = 0\<rparr> hostile_config 0 NPCManager_new heap0
      in spawnNPC ''enemy_1'' \<lparr>x = 50, y = 50\<rparr> (hostile_config\<lparr>cfg_name := ''Hostile 2''\<rparr>)
           1 m1 h1)"


section \<open>GameState.tsx\<close>

record Mission =
  mission_id :: string
  title :: string
  objective :: string
  reward :: real
  targetNPC :: string

record GameState =
  player_health :: real
  player_maxHealth :: real
  ammo :: real
  maxAmmo :: real
  playerLevel :: real
  player_position :: NPCPosition
  currentMission :: "Mission option"
  equippedWeapon :: string
  score :: real

text \<open>
  The actions. \<open>UNKNOWN\<close> stands for an action whose \<open>type\<close> is none of the ten, which
  the \<open>default\<close> branch of the reducer takes.
\<close>

datatype GameAction =
    SHOOT
  | RELOAD
  | TAKE_DAMAGE real
  | HEAL real
  | MOVE NPCPosition
  | SET_MISSION Mission
  | COMPLETE_MISSION
  | EQUIP_WEAPON string
  | ADD_SCORE real
  | RESET
  | UNKNOWN string

definition initialState :: GameState where
  "initialState =
     \<lparr>player_health = 100, player_maxHealth = 100, ammo = 30, maxAmmo = 30, playerLevel = 1,
      player_position = \<lparr>x = 0, y = 0\<rparr>, currentMission = None, equippedWeapon = ''rifle'',
      score = 0\<rparr>"

fun gameReducer :: "GameState \<Rightarrow> GameAction \<Rightarrow> GameState" where
  "gameReducer s SHOOT = (if ammo s \<le> 0 then s else s\<lparr>ammo := ammo s - 1\<rparr>)"
| "gameReducer s RELOAD = s\<lparr>ammo := maxAmmo s\<rparr>"
| "gameReducer s (TAKE_DAMAGE payload) =
     s\<lparr>player_health := max 0 (player_health s - payload)\<rparr>"
| "gameReducer s (HEAL payload) =
     s\<lparr>player_health := min (player_maxHealth s) (player_health s + payload)\<rparr>"
| "gameReducer s (MOVE payload) =
     s\<lparr>player_position := \<lparr>x = x (player_position s) + x payload,
                            y = y (player_position s) + y payload\<rparr>\<rparr>"
| "gameReducer s (SET_MISSION payload) = s\<lparr>currentMission := Some payload\<rparr>"
| "gameReducer s COMPLETE_MISSION =
     (case currentMission s of
        None \<Rightarrow> s
      | Some m \<Rightarrow> s\<lparr>score := score s + reward m, currentMission := None\<rparr>)"
| "gameReducer s (EQUIP_WEAPON payload) = s\<lparr>equippedWeapon := payload\<rparr>"
| "gameReducer s (ADD_SCORE payload) = s\<lparr>score := score s + payload\<rparr>"
| "gameReducer s RESET = initialState"
| "gameReducer s (UNKNOWN _) = s"

text \<open>The store: the reducer run over the actions dispatched, from the initial state.\<close>

definition dispatch_all :: "GameAction list \<Rightarrow> GameState" where
  "dispatch_all actions = foldl gameReducer initialState actions"

text \<open>
  Actions whose amount is not negative, by what the amount goes into: the payload of
  \<open>TAKE_DAMAGE\<close>; the payload of \<open>HEAL\<close>; the payload of \<open>ADD_SCORE\<close> and the
  reward of the mission that \<open>SET_MISSION\<close> sets.
\<close>

definition damage_nonneg :: "GameAction \<Rightarrow> bool" where
  "damage_nonneg a = (case a of TAKE_DAMAGE n \<Rightarrow> 0 \<le> n | _ \<Rightarrow> True)"

definition heal_nonneg :: "GameAction \<Rightarrow> bool" where
  "heal_nonneg a = (case a of HEAL n \<Rightarrow> 0 \<le> n | _ \<Rightarrow> True)"

definition score_nonneg :: "GameAction \<Rightarrow> bool" where
  "score_nonneg a =
     (case a of ADD_SCORE n \<Rightarrow> 0 \<le> n | SET_MISSION m \<Rightarrow> 0 \<le> reward m | _ \<Rightarrow> True)"

text \<open>
  What holds of every player state reached from the initial one, whatever the actions:
  the two maxima are those of the initial state and the ammunition is a whole number of
  rounds, at most 30.
\<close>

definition ammo_inv :: "GameState \<Rightarrow> bool" where
  "ammo_inv s =
     (player_maxHealth s = 100 \<and> maxAmmo s = 30 \<and> ammo s \<in> \<nat> \<and> ammo s \<le> 30)"

text \<open>The current mission, if there is one, has a reward that is not negative.\<close>

definition reward_inv :: "GameState \<Rightarrow> bool" where
  "reward_inv s = (case currentMission s of None \<Rightarrow> True | Some m \<Rightarrow> 0 \<le> reward m)"

section \<open>The weapon: fire and reload\<close>

subsection \<open>The ammunition stays a whole number of rounds\<close>

lemma within_fireInterval_eq:
  "rate \<noteq> 0 \<Longrightarrow> within_fireInterval elapsed rate = (elapsed < 1000 / rate)"
  by (simp add: within_fireInterval_def)

lemma Nats_pred: "a \<in> \<nat> \<Longrightarrow> \<not> a \<le> 0 \<Longrightarrow> (a::real) - 1 \<in> \<nat>"
proof -
  assume a: "a \<in> \<nat>" and pos: "\<not> a \<le> 0"
  from a obtain n :: nat where n: "a = of_nat n" by (auto elim: Nats_cases)
  with pos have "0 < n" by simp
  then have "a - 1 = of_nat (n - 1)" using n by (simp add: of_nat_diff)
  then show ?thesis by simp
qed

lemma gun_inv_fire: "gun_inv cfg g \<Longrightarrow> gun_inv cfg (snd (snd (fire now g)))"
  by (simp add: gun_inv_def fire_def Nats_pred)

lemma gun_inv_reload: "gun_inv cfg g \<Longrightarrow> gun_inv cfg (snd (snd (reload g)))"
  by (simp add: gun_inv_def reload_def)

lemma gun_inv_reload_timeout:
  "magazineSize (stats cfg) \<in> \<nat> \<Longrightarrow> gun_inv cfg g \<Longrightarrow> gun_inv cfg (reload_timeout g)"
  by (simp add: gun_inv_def reload_timeout_def)

lemma gun_inv_timeouts:
  "magazineSize (stats cfg) \<in> \<nat> \<Longrightarrow> gun_inv cfg g \<Longrightarrow>
   gun_inv cfg (foldl (\<lambda>g _. reload_timeout g) g ds)"
  by (induction ds arbitrary: g) (simp_all add: gun_inv_reload_timeout)

lemma gun_inv_run_timers:
  "magazineSize (stats cfg) \<in> \<nat> \<Longrightarrow> gun_inv cfg (gun s) \<Longrightarrow>
   gun_inv cfg (gun (run_timers now s))"
  by (simp add: run_timers_def gun_inv_timeouts)

lemma gun_inv_gun_fire: "gun_inv cfg (gun s) \<Longrightarrow> gun_inv cfg (gun (gun_fire now s))"
  by (simp add: gun_fire_def gun_inv_fire)

lemma gun_inv_gun_reload: "gun_inv cfg (gun s) \<Longrightarrow> gun_inv cfg (gun (gun_reload now s))"
  using gun_inv_reload [of cfg "gun s"]
  by (auto simp: gun_reload_def split: prod.splits promise.splits)

lemma gun_inv_setCallbacks:
  "gun_inv cfg g \<Longrightarrow> gun_inv cfg (setCallbacks cbFire cbReload cbEmpty g)"
  by (simp add: gun_inv_def setCallbacks_def)

lemma gun_inv_step:
  "magazineSize (stats cfg) \<in> \<nat> \<Longrightarrow> gun_inv cfg (gun s) \<Longrightarrow> gun_inv cfg (gun (gun_step s c))"
  by (cases "(s, c)" rule: gun_step.cases)
     (simp_all add: gun_inv_run_timers gun_inv_gun_fire gun_inv_gun_reload
        gun_inv_setCallbacks Let_def)

lemma gun_inv_foldl:
  "magazineSize (stats cfg) \<in> \<nat> \<Longrightarrow> gun_inv cfg (gun s) \<Longrightarrow>
   gun_inv cfg (gun (foldl gun_step s calls))"
  by (induction calls arbitrary: s) (simp_all add: gun_inv_step)

lemma gun_inv_run:
  "magazineSize (stats cfg) \<in> \<nat> \<Longrightarrow> gun_inv cfg (gun (gun_run cfg calls))"
  unfolding gun_run_def
  by (rule gun_inv_foldl) (simp_all add: gun_inv_def GunController_new_def)

lemma Nats_nonneg_real: "(a::real) \<in> \<nat> \<Longrightarrow> 0 \<le> a"
  by (auto elim: Nats_cases)

text \<open>
  The presets and every validated configuration have a whole, positive magazine size and a
  positive fire rate.
\<close>

lemma validateConfig_magazine: "magazineSize (stats (validateConfig cfg)) \<in> \<nat>"
proof -
  define k where "k = max 1 (min 100 \<lfloor>magazineSize (stats cfg)\<rfloor>)"
  have "0 \<le> k" by (simp add: k_def)
  then have "(of_int k :: real) = of_nat (nat k)" by simp
  moreover have "clamp (of_int \<lfloor>magazineSize (stats cfg)\<rfloor>) 1 100 = of_int k"
    by (simp add: clamp_def k_def max_def min_def)
  ultimately have "clamp (of_int \<lfloor>magazineSize (stats cfg)\<rfloor>) 1 100 \<in> \<nat>"
    by (metis of_nat_in_Nats)
  then show ?thesis by (simp add: validateConfig_def)
qed

lemma validateConfig_fireRate: "0 < fireRate (stats (validateConfig cfg))"
  by (simp add: validateConfig_def clamp_def max_def)

lemma PRESET_GUNS_data_model:
  "PRESET_GUNS key = Some cfg \<Longrightarrow> magazineSize (stats cfg) \<in> \<nat> \<and> 0 < fireRate (stats cfg)"
  by (auto simp: PRESET_GUNS_def split: if_splits)

subsection \<open>fire\<close>

text \<open>
  Claim C1, as amended. For every gun, \<open>fire()\<close> returns false and leaves the gun as it
  is whenever the gun is reloading, or the time since \<open>lastFireTime\<close> is strictly less
  than \<open>1000 / fireRate\<close> milliseconds (with a fire rate of 0 that interval is infinite
  and every call is inside it), or \<open>currentAmmo\<close> is 0 or below. Otherwise it returns
  true, takes exactly 1 from \<open>currentAmmo\<close> and records the time of the call in
  \<open>lastFireTime\<close>. For a gun built from a configuration whose magazine size is a whole
  number, after any calls of \<open>fire\<close>, \<open>reload\<close> and \<open>setCallbacks\<close> and any turns of
  the event loop, \<open>currentAmmo\<close> is never negative, before or after \<open>fire()\<close>, so
  that "0 or below" is "0" there.
\<close>

theorem fire_contract:
  "(isReloading g \<or> fireRate (stats (config g)) = 0
      \<or> now - lastFireTime g < 1000 / fireRate (stats (config g)) \<or> currentAmmo g \<le> 0
      \<longrightarrow> \<not> fst (fire now g) \<and> snd (snd (fire now g)) = g)
   \<and> (\<not> isReloading g \<and> fireRate (stats (config g)) \<noteq> 0
      \<and> \<not> now - lastFireTime g < 1000 / fireRate (stats (config g)) \<and> 0 < currentAmmo g
      \<longrightarrow> fst (fire now g)
        \<and> snd (snd (fire now g)) = g\<lparr>currentAmmo := currentAmmo g - 1, lastFireTime := now\<rparr>)
   \<and> (magazineSize (stats cfg) \<in> \<nat> \<longrightarrow>
        0 \<le> currentAmmo (gun (gun_run cfg calls))
      \<and> 0 \<le> currentAmmo (snd (snd (fire now (gun (gun_run cfg calls)))))
      \<and> (currentAmmo (gun (gun_run cfg calls)) \<le> 0
           \<longleftrightarrow> currentAmmo (gun (gun_run cfg calls)) = 0))"
proof -
  have reject: "\<not> fst (fire now g) \<and> snd (snd (fire now g)) = g"
    if "isReloading g \<or> fireRate (stats (config g)) = 0
        \<or> now - lastFireTime g < 1000 / fireRate (stats (config g)) \<or> currentAmmo g \<le> 0"
    using that by (auto simp: fire_def within_fireInterval_def)
  have accept: "fst (fire now g)
        \<and> snd (snd (fire now g)) = g\<lparr>currentAmmo := currentAmmo g - 1, lastFireTime := now\<rparr>"
    if "\<not> isReloading g \<and> fireRate (stats (config g)) \<noteq> 0
        \<and> \<not> now - lastFireTime g < 1000 / fireRate (stats (config g)) \<and> 0 < currentAmmo g"
    using that by (auto simp: fire_def within_fireInterval_def)
  have whole: "0 \<le> currentAmmo (gun (gun_run cfg calls))
      \<and> 0 \<le> currentAmmo (snd (snd (fire now (gun (gun_run cfg calls)))))
      \<and> (currentAmmo (gun (gun_run cfg calls)) \<le> 0
           \<longleftrightarrow> currentAmmo (gun (gun_run cfg calls)) = 0)"
    if mag: "magazineSize (stats cfg) \<in> \<nat>"
  proof -
    have inv: "gun_inv cfg (gun (gun_run cfg calls))"
      using mag by (rule gun_inv_run)
    then have nonneg: "0 \<le> currentAmmo (gun (gun_run cfg calls))"
      by (simp add: gun_inv_def Nats_nonneg_real)
    have "0 \<le> currentAmmo (snd (snd (fire now (gun (gun_run cfg calls)))))"
      using gun_inv_fire [OF inv, of now] by (simp add: gun_inv_def Nats_nonneg_real)
    with nonneg show ?thesis by auto
  qed
  show ?thesis using reject accept whole by blast
qed

text \<open>
  The rifle preset with callbacks installed, fired once at time 1000: a second shot at 1100
  is inside the 125 ms interval and is rejected, a second shot at 2000 succeeds and leaves
  28 rounds.
\<close>

theorem fire_contract_witness:
  "magazineSize (stats (the (PRESET_GUNS ''rifle''))) \<in> \<nat>
   \<and> \<not> fst (fire 1100 (gun (gun_run (the (PRESET_GUNS ''rifle''))
                [(500, SetCallbacks (Some 1) None (Some 3)), (1000, Fire)])))
   \<and> currentAmmo (snd (snd (fire 1100 (gun (gun_run (the (PRESET_GUNS ''rifle''))
                [(500, SetCallbacks (Some 1) None (Some 3)), (1000, Fire)]))))) = 29
   \<and> fst (fire 2000 (gun (gun_run (the (PRESET_GUNS ''rifle''))
                [(500, SetCallbacks (Some 1) None (Some 3)), (1000, Fire)])))
   \<and> currentAmmo (snd (snd (fire 2000 (gun (gun_run (the (PRESET_GUNS ''rifle''))
                [(500, SetCallbacks (Some 1) None (Some 3)), (1000, Fire)]))))) = 28
   \<and> lastFireTime (snd (snd (fire 2000 (gun (gun_run (the (PRESET_GUNS ''rifle''))
                [(500, SetCallbacks (Some 1) None (Some 3)), (1000, Fire)]))))) = 2000
   \<and> 0 \<le> currentAmmo (gun (gun_run (the (PRESET_GUNS ''rifle''))
                [(500, SetCallbacks (Some 1) None (Some 3)), (1000, Fire)]))"
proof -
  let ?cfg = "the (PRESET_GUNS ''rifle'')"
  let ?calls = "[(500, SetCallbacks (Some 1) None (Some 3)), (1000, Fire)]"
  have h1: "magazineSize (stats ?cfg) \<in> \<nat>" by (simp add: PRESET_GUNS_def)
  have g: "gun (gun_run ?cfg ?calls)
           = (GunController_new ?cfg)
               \<lparr>currentAmmo := 29, lastFireTime := 1000, onFire := Some 1, onEmpty := Some 3\<rparr>"
    by (simp add: gun_run_def gun_fire_def run_timers_def fire_def within_fireInterval_def
        setCallbacks_def GunController_new_def PRESET_GUNS_def)
  have c: "config (GunController_new ?cfg) = ?cfg" "isReloading (GunController_new ?cfg) = False"
    by (simp_all add: GunController_new_def)
  have r: "fireRate (stats ?cfg) = 8" by (simp add: PRESET_GUNS_def)
  show ?thesis
    using h1 fire_contract [of "gun (gun_run ?cfg ?calls)" 1100 ?cfg ?calls]
      fire_contract [of "gun (gun_run ?cfg ?calls)" 2000 ?cfg ?calls]
    unfolding g by (simp add: c r)
qed

text \<open>
  The claim as it was, for every gun. The gun with half a round fires at time 1000 and is
  left with minus half a round. At time 2000 it is not reloading, the interval has passed
  and its ammunition is not 0, yet \<open>fire()\<close> returns false.
\<close>

theorem fire_contract_counterexample:
  "fst (fire 1000 (GunController_new half_round_config))
   \<and> currentAmmo (gun (gun_run half_round_config [(1000, Fire)])) = - (1 / 2)
   \<and> currentAmmo (gun (gun_run half_round_config [(1000, Fire)])) < 0
   \<and> \<not> isReloading (gun (gun_run half_round_config [(1000, Fire)]))
   \<and> \<not> 2000 - lastFireTime (gun (gun_run half_round_config [(1000, Fire)]))
         < 1000 / fireRate (stats (config (gun (gun_run half_round_config [(1000, Fire)]))))
   \<and> currentAmmo (gun (gun_run half_round_config [(1000, Fire)])) \<noteq> 0
   \<and> \<not> fst (fire 2000 (gun (gun_run half_round_config [(1000, Fire)])))"
proof -
  have g: "gun (gun_run half_round_config [(1000, Fire)])
           = (GunController_new half_round_config)
               \<lparr>currentAmmo := - (1 / 2), lastFireTime := 1000\<rparr>"
    by (simp add: gun_run_def gun_fire_def run_timers_def fire_def within_fireInterval_def
        GunController_new_def half_round_config_def)
  show ?thesis
    unfolding g
    by (simp add: fire_def within_fireInterval_def GunController_new_def half_round_config_def)
qed



subsection \<open>reload\<close>

lemma foldl_reload_timeout:
  "ds \<noteq> [] \<Longrightarrow>
   foldl (\<lambda>g _. reload_timeout g) g ds
   = g\<lparr>currentAmmo := magazineSize (stats (config g)), isReloading := False\<rparr>"
proof (induction ds arbitrary: g)
  case Nil
  then show ?case by simp
next
  case (Cons d ds)
  show ?case
  proof (cases "ds = []")
    case True
    then show ?thesis by (simp add: reload_timeout_def)
  next
    case False
    then show ?thesis
      using Cons.IH [of "reload_timeout g"] by (simp add: reload_timeout_def)
  qed
qed

text \<open>
  Claim C4. \<open>reload()\<close> on a gun that is reloading returns a resolved promise, sets no
  timer and changes nothing. On a gun that is not reloading it sets \<open>isReloading\<close> and
  a timer of \<open>reloadTime\<close> milliseconds. At every turn of the event loop from
  \<open>now + reloadTime\<close> on, the timer's callback has run: \<open>currentAmmo\<close> is
  \<open>magazineSize\<close> and \<open>isReloading\<close> is false. Before that time, with no other timer
  waiting, the gun is as \<open>reload()\<close> left it.
\<close>

theorem reload_contract:
  "(isReloading (gun s) \<longrightarrow>
      reload (gun s) = (Resolved, [], gun s) \<and> gun_reload now s = s)
   \<and> (\<not> isReloading (gun s) \<longrightarrow>
        reload (gun s) = (Pending (reloadTime (stats (config (gun s)))), call (onReload (gun s)),
                          (gun s)\<lparr>isReloading := True\<rparr>)
      \<and> (now + reloadTime (stats (config (gun s))) \<le> t \<longrightarrow>
           currentAmmo (gun (run_timers t (gun_reload now s))) = magazineSize (stats (config (gun s)))
         \<and> \<not> isReloading (gun (run_timers t (gun_reload now s))))
      \<and> (t < now + reloadTime (stats (config (gun s))) \<and> timers s = [] \<longrightarrow>
           gun (run_timers t (gun_reload now s)) = (gun s)\<lparr>isReloading := True\<rparr>))"
proof -
  have busy: "reload (gun s) = (Resolved, [], gun s) \<and> gun_reload now s = s"
    if "isReloading (gun s)"
    using that by (simp add: reload_def gun_reload_def)
  have start: "reload (gun s) = (Pending (reloadTime (stats (config (gun s)))),
                 call (onReload (gun s)), (gun s)\<lparr>isReloading := True\<rparr>)"
    if "\<not> isReloading (gun s)"
    using that by (simp add: reload_def)
  have loop: "gun_reload now s = s\<lparr>gun := (gun s)\<lparr>isReloading := True\<rparr>,
                 timers := timers s @ [now + reloadTime (stats (config (gun s)))]\<rparr>"
    if "\<not> isReloading (gun s)"
    using that by (simp add: reload_def gun_reload_def)
  have complete: "currentAmmo (gun (run_timers t (gun_reload now s))) = magazineSize (stats (config (gun s)))
         \<and> \<not> isReloading (gun (run_timers t (gun_reload now s)))"
    if "\<not> isReloading (gun s)" and "now + reloadTime (stats (config (gun s))) \<le> t"
  proof -
    let ?due = "filter (\<lambda>due. due \<le> t) (timers s @ [now + reloadTime (stats (config (gun s)))])"
    have "?due \<noteq> []" using that(2) by simp
    then show ?thesis
      unfolding loop [OF that(1)] run_timers_def
      by (simp add: foldl_reload_timeout del: filter_append)
  qed
  have early: "gun (run_timers t (gun_reload now s)) = (gun s)\<lparr>isReloading := True\<rparr>"
    if "\<not> isReloading (gun s)" and "t < now + reloadTime (stats (config (gun s)))"
      and "timers s = []"
    using that(2,3) unfolding loop [OF that(1)] run_timers_def by simp
  show ?thesis using busy start complete early by blast
qed

text \<open>
  The rifle preset with 3 rounds left, reloaded at time 100: a second \<open>reload()\<close> at 700
  changes nothing, at 2099 the gun still holds 3 rounds, at 2100 it holds 30.
\<close>

theorem reload_contract_witness:
  "\<not> isReloading (GunController_new (the (PRESET_GUNS ''rifle'')))
   \<and> isReloading (gun (gun_reload 100 \<lparr>gun = GunController_new (the (PRESET_GUNS ''rifle'')), timers = []\<rparr>))
   \<and> gun_reload 700 (gun_reload 100 \<lparr>gun = GunController_new (the (PRESET_GUNS ''rifle'')), timers = []\<rparr>)
     = gun_reload 100 \<lparr>gun = GunController_new (the (PRESET_GUNS ''rifle'')), timers = []\<rparr>
   \<and> (100::real) + 2000 \<le> 2100
   \<and> currentAmmo (gun (run_timers 2100
        (gun_reload 100 \<lparr>gun = (GunController_new (the (PRESET_GUNS ''rifle'')))\<lparr>currentAmmo := 3\<rparr>,
                          timers = []\<rparr>))) = 30
   \<and> \<not> isReloading (gun (run_timers 2100
        (gun_reload 100 \<lparr>gun = (GunController_new (the (PRESET_GUNS ''rifle'')))\<lparr>currentAmmo := 3\<rparr>,
                          timers = []\<rparr>)))
   \<and> currentAmmo (gun (run_timers 2099
        (gun_reload 100 \<lparr>gun = (GunController_new (the (PRESET_GUNS ''rifle'')))\<lparr>currentAmmo := 3\<rparr>,
                          timers = []\<rparr>))) = 3"
proof -
  let ?g = "GunController_new (the (PRESET_GUNS ''rifle''))"
  have r: "reloadTime (stats (config ?g)) = 2000" "isReloading ?g = False"
    "magazineSize (stats (config ?g)) = 30"
    by (simp_all add: GunController_new_def PRESET_GUNS_def)
  have s1: "gun_reload 100 \<lparr>gun = ?g, timers = []\<rparr> = \<lparr>gun = ?g\<lparr>isReloading := True\<rparr>, timers = [2100]\<rparr>"
    by (simp add: gun_reload_def reload_def r)
  show ?thesis
    using reload_contract [of "\<lparr>gun = ?g\<lparr>isReloading := True\<rparr>, timers = [2100]\<rparr>" 700]
      reload_contract [of "\<lparr>gun = ?g\<lparr>currentAmmo := 3\<rparr>, timers = []\<rparr>" 100 2100]
      reload_contract [of "\<lparr>gun = ?g\<lparr>currentAmmo := 3\<rparr>, timers = []\<rparr>" 100 2099]
    unfolding s1 by (simp add: r)
qed

section \<open>The hostile actors\<close>

subsection \<open>Reading the actor through the heap\<close>

lemma this_npc_set_this_npc [simp]: "this_npc this (set_this_npc this n h) = n"
  by (simp add: this_npc_def set_this_npc_def)

lemma controllers_set_this_npc [simp]: "controllers (set_this_npc this n h) = controllers h"
  by (simp add: set_this_npc_def)

lemma this_npc_controller_fields [simp]:
  "this_npc this
     (h\<lparr>controllers := (controllers h)(this := (controllers h this)\<lparr>lastUpdateTime := t\<rparr>)\<rparr>)
   = this_npc this h"
  "this_npc this
     (h\<lparr>controllers := (controllers h)(this := (controllers h this)\<lparr>stateTransitionTime := t\<rparr>)\<rparr>)
   = this_npc this h"
  by (simp_all add: this_npc_def)

lemma this_npc_positions [simp]: "this_npc this (h\<lparr>positions := ps\<rparr>) = this_npc this h"
  by (simp add: this_npc_def)

lemma state_transitionTo [simp]: "state (this_npc this (transitionTo s tnow this h)) = s"
  by (simp add: transitionTo_def Let_def this_npc_def set_this_npc_def)

lemma this_npc_moveTowards [simp]:
  "this_npc this (moveTowards target dt this h) = this_npc this h"
  by (simp add: moveTowards_def Let_def)

lemma getDistanceTo_lastUpdateTime [simp]:
  "getDistanceTo pp this
     (h\<lparr>controllers := (controllers h)(this := (controllers h this)\<lparr>lastUpdateTime := t\<rparr>)\<rparr>)
   = getDistanceTo pp this h"
  by (simp add: getDistanceTo_def)

text \<open>The constructor, with its three allocations written out.\<close>

lemma NPCController_new_eq:
  "NPCController_new ident pos cfg now h =
     (Suc (Suc (next_ref h)),
      h\<lparr>positions := (positions h)(next_ref h := pos),
        npc_objs := (npc_objs h)(Suc (next_ref h) :=
          \<lparr>npc_id = ident, name = cfg_name cfg,
           state = (if cfg_patrolPoints cfg \<noteq> None then Patrol else Idle),
           position = next_ref h,
           health = (case cfg_health cfg of None \<Rightarrow> DEFAULT_NPC_CONFIG_health | Some v \<Rightarrow> v),
           maxHealth = (case cfg_health cfg of None \<Rightarrow> DEFAULT_NPC_CONFIG_health | Some v \<Rightarrow> v),
           detectionRange = (case cfg_detectionRange cfg of
                               None \<Rightarrow> DEFAULT_NPC_CONFIG_detectionRange | Some v \<Rightarrow> v),
           attackRange = (case cfg_attackRange cfg of
                            None \<Rightarrow> DEFAULT_NPC_CONFIG_attackRange | Some v \<Rightarrow> v),
           speed = (case cfg_speed cfg of None \<Rightarrow> DEFAULT_NPC_CONFIG_speed | Some v \<Rightarrow> v),
           patrolPoints = cfg_patrolPoints cfg, currentPatrolIndex = 0\<rparr>),
        controllers := (controllers h)(Suc (Suc (next_ref h)) :=
          \<lparr>npc = Suc (next_ref h), stateTransitionTime = 0, lastUpdateTime = now\<rparr>),
        next_ref := Suc (Suc (Suc (next_ref h)))\<rparr>)"
  by (simp add: NPCController_new_def new_position_def new_npc_def new_controller_def Let_def)

text \<open>
  The objects of an actor are allocated when it is built, and stay so under every method and
  under the building of other actors.
\<close>

lemma allocated_new:
  "allocated (fst (NPCController_new ident pos cfg now h))
     (snd (NPCController_new ident pos cfg now h))"
  by (simp add: NPCController_new_eq allocated_def this_npc_def)

lemma allocated_update: "allocated this h \<Longrightarrow> allocated this (snd (update now tnow pp this h))"
  by (auto simp: allocated_def update_def handleIdleState_def handlePatrolState_def
      handleAggressiveState_def transitionTo_def moveTowards_def set_this_npc_def this_npc_def
      Let_def split: NPCState.splits option.splits)

lemma allocated_takeDamage:
  "allocated this h \<Longrightarrow> allocated this (snd (takeDamage amount tnow this h))"
  by (auto simp: allocated_def takeDamage_def transitionTo_def set_this_npc_def this_npc_def
      Let_def)

lemma allocated_heal: "allocated this h \<Longrightarrow> allocated this (heal amount this h)"
  by (auto simp: allocated_def heal_def set_this_npc_def this_npc_def Let_def)

lemma allocated_getters:
  "allocated this h \<Longrightarrow> allocated this (snd (getPosition that h))"
  "allocated this h \<Longrightarrow> allocated this (snd (getNPC that h))"
  by (auto simp: allocated_def getPosition_def getNPC_def new_position_def new_npc_def
      this_npc_def)

lemma allocated_spawnNPC:
  "allocated this h \<Longrightarrow> allocated this (snd (snd (spawnNPC ident pos cfg now m h)))"
  by (auto simp: allocated_def spawnNPC_def NPCController_new_eq this_npc_def)

subsection \<open>The two actors\<close>

lemmas DEFAULT_NPC_CONFIG =
  DEFAULT_NPC_CONFIG_health_def DEFAULT_NPC_CONFIG_detectionRange_def
  DEFAULT_NPC_CONFIG_attackRange_def DEFAULT_NPC_CONFIG_speed_def

lemma hostile_heap_eq:
  "hostile_heap =
     heap0\<lparr>positions := (positions heap0)(0 := \<lparr>x = 0, y = 0\<rparr>),
           npc_objs := (npc_objs heap0)(Suc 0 :=
             \<lparr>npc_id = ''e1'', name = ''Hostile 1'', state = Idle, position = 0, health = 100,
              maxHealth = 100, detectionRange = 150, attackRange = 50, speed = 2,
              patrolPoints = None, currentPatrolIndex = 0\<rparr>),
           controllers := (controllers heap0)(2 :=
             \<lparr>npc = Suc 0, stateTransitionTime = 0, lastUpdateTime = 0\<rparr>),
           next_ref := 3\<rparr>"
  by (simp add: hostile_heap_def NPCController_new_eq hostile_config_def heap0_def
      DEFAULT_NPC_CONFIG eval_nat_numeral)

lemma guard_heap_eq:
  "guard_heap route =
     heap0\<lparr>arrays := (arrays heap0)(0 := route),
           positions := (positions heap0)(Suc 0 := \<lparr>x = 0, y = 0\<rparr>),
           npc_objs := (npc_objs heap0)(2 :=
             \<lparr>npc_id = ''g1'', name = ''Guard'', state = Patrol, position = Suc 0, health = 100,
              maxHealth = 100, detectionRange = 200, attackRange = 50, speed = 1.5,
              patrolPoints = Some 0, currentPatrolIndex = 0\<rparr>),
           controllers := (controllers heap0)(3 :=
             \<lparr>npc = 2, stateTransitionTime = 0, lastUpdateTime = 0\<rparr>),
           next_ref := 4\<rparr>"
  by (simp add: guard_heap_def new_array_def NPCController_new_eq guard_config_def heap0_def
      DEFAULT_NPC_CONFIG eval_nat_numeral)

lemma hostile_npc:
  "this_npc 2 hostile_heap =
     \<lparr>npc_id = ''e1'', name = ''Hostile 1'', state = Idle, position = 0, health = 100,
      maxHealth = 100, detectionRange = 150, attackRange = 50, speed = 2,
      patrolPoints = None, currentPatrolIndex = 0\<rparr>"
  "positions hostile_heap 0 = \<lparr>x = 0, y = 0\<rparr>"
  by (simp_all add: hostile_heap_eq this_npc_def)

lemma guard_npc:
  "this_npc 3 (guard_heap route) =
     \<lparr>npc_id = ''g1'', name = ''Guard'', state = Patrol, position = Suc 0, health = 100,
      maxHealth = 100, detectionRange = 200, attackRange = 50, speed = 1.5,
      patrolPoints = Some 0, currentPatrolIndex = 0\<rparr>"
  "positions (guard_heap route) (Suc 0) = \<lparr>x = 0, y = 0\<rparr>"
  "arrays (guard_heap route) 0 = route"
  by (simp_all add: guard_heap_eq this_npc_def)

lemma allocated_hostile: "allocated 2 hostile_heap"
  by (simp add: allocated_def hostile_npc) (simp add: hostile_heap_eq)

lemma allocated_guard: "allocated 3 (guard_heap route)"
  by (simp add: allocated_def guard_npc) (simp add: guard_heap_eq)

lemma sqrt_squares:
  "sqrt 10000 = 100" "sqrt 22500 = 150" "sqrt 40000 = 200" "sqrt 50625 = 225"
  "sqrt 90000 = 300" "sqrt 1000000 = 1000"
  by (simp_all add: real_sqrt_unique)

text \<open>
  \<open>takeDamage(0)\<close> on an actor whose health is not negative changes its state and no
  other field, and no call of \<open>takeDamage\<close> moves an actor.
\<close>

lemma takeDamage_0_npc:
  "0 \<le> health (this_npc this h) \<Longrightarrow>
   this_npc this (snd (takeDamage 0 tnow this h)) = (this_npc this h)\<lparr>state := Aggressive\<rparr>"
  "positions (snd (takeDamage amount tnow this h)) = positions h"
  by (auto simp: takeDamage_def transitionTo_def Let_def this_npc_def set_this_npc_def max_def)

subsection \<open>update\<close>

lemma state_update:
  "state (this_npc this (snd (update now tnow pp this h))) =
     (let n = this_npc this h; d = getDistanceTo pp this h
      in case state n of
           Idle \<Rightarrow> if d \<le> detectionRange n then Aggressive else Idle
         | Patrol \<Rightarrow> if d \<le> detectionRange n then Aggressive else Patrol
         | Aggressive \<Rightarrow>
             if detectionRange n * 1.5 < d
             then (if patrolPoints n \<noteq> None then Patrol else Idle) else Aggressive)"
  by (simp add: update_def handleIdleState_def handlePatrolState_def handleAggressiveState_def
      Let_def split: NPCState.splits option.splits)

lemma returns_update:
  "state (this_npc this h) \<noteq> Patrol
   \<or> getDistanceTo pp this h \<le> detectionRange (this_npc this h)
   \<Longrightarrow> fst (update now tnow pp this h) = Return ()"
  by (auto simp: update_def handlePatrolState_def Let_def split: NPCState.splits)

text \<open>
  Claim C2. Let \<open>dist\<close> be the Euclidean distance from the actor to the player when
  \<open>update(playerPosition)\<close> is called. An idle or patrolling actor is aggressive after
  the call exactly when \<open>dist \<le> detectionRange\<close>, and keeps its state otherwise. An
  aggressive actor leaves the aggressive state exactly when
  \<open>dist > 1.5 \<times> detectionRange\<close>, for patrol if it has a patrol route and for idle if it
  has none; up to that distance, so at every distance in
  \<open>(detectionRange, 1.5 \<times> detectionRange]\<close>, it stays aggressive. In all these cases but
  that of a patrolling actor that stays on patrol the call returns; the state after the
  call is as said whether the call returns or throws.
\<close>

theorem update_transitions:
  "let n = this_npc this h;
       p = positions h (position n);
       dist = sqrt ((x pp - x p) * (x pp - x p) + (y pp - y p) * (y pp - y p));
       n' = this_npc this (snd (update now tnow pp this h))
   in (state n = Idle \<or> state n = Patrol \<longrightarrow>
         (state n' = Aggressive \<longleftrightarrow> dist \<le> detectionRange n)
       \<and> (detectionRange n < dist \<longrightarrow> state n' = state n))
    \<and> (state n = Aggressive \<longrightarrow>
         (state n' \<noteq> Aggressive \<longleftrightarrow> 1.5 * detectionRange n < dist)
       \<and> (1.5 * detectionRange n < dist \<longrightarrow>
            state n' = (if patrolPoints n \<noteq> None then Patrol else Idle))
       \<and> (dist \<le> 1.5 * detectionRange n \<longrightarrow> state n' = Aggressive))
    \<and> (state n \<noteq> Patrol \<or> dist \<le> detectionRange n \<longrightarrow>
         fst (update now tnow pp this h) = Return ())"
proof -
  have d: "getDistanceTo pp this h
           = sqrt ((x pp - x (positions h (position (this_npc this h))))
                   * (x pp - x (positions h (position (this_npc this h))))
                 + (y pp - y (positions h (position (this_npc this h))))
                   * (y pp - y (positions h (position (this_npc this h)))))"
    by (simp add: getDistanceTo_def Let_def)
  show ?thesis
    unfolding Let_def d [symmetric]
    using returns_update [of this h pp now tnow]
    by (auto simp: state_update Let_def mult.commute split: NPCState.splits)
qed

text \<open>
  The hostile (detection range 150, no route) and the guard (detection range 200, a route
  of two waypoints), both at the origin, with the player on the x axis. Idle: aggressive
  at 100 and at 150, idle at 300. On patrol: still on patrol at 1000, aggressive at 200.
  Aggressive: still
  aggressive at 200 and at 225, idle at 300 for the hostile, on patrol at 1000 for the
  guard.
\<close>

theorem update_transitions_witness:
  "getState 2 hostile_heap = Idle
   \<and> getState 2 (snd (update 16 16 \<lparr>x = 100, y = 0\<rparr> 2 hostile_heap)) = Aggressive
   \<and> getState 2 (snd (update 16 16 \<lparr>x = 150, y = 0\<rparr> 2 hostile_heap)) = Aggressive
   \<and> getState 2 (snd (update 16 16 \<lparr>x = 300, y = 0\<rparr> 2 hostile_heap)) = Idle
   \<and> getState 3 (guard_heap [\<lparr>x = 0, y = 0\<rparr>, \<lparr>x = 100, y = 0\<rparr>]) = Patrol
   \<and> getState 3 (snd (update 16 16 \<lparr>x = 1000, y = 0\<rparr> 3
        (guard_heap [\<lparr>x = 0, y = 0\<rparr>, \<lparr>x = 100, y = 0\<rparr>]))) = Patrol
   \<and> getState 3 (snd (update 16 16 \<lparr>x = 200, y = 0\<rparr> 3
        (guard_heap [\<lparr>x = 0, y = 0\<rparr>, \<lparr>x = 100, y = 0\<rparr>]))) = Aggressive
   \<and> getState 2 (snd (takeDamage 0 8 2 hostile_heap)) = Aggressive
   \<and> getState 2 (snd (update 16 16 \<lparr>x = 200, y = 0\<rparr> 2
        (snd (takeDamage 0 8 2 hostile_heap)))) = Aggressive
   \<and> getState 2 (snd (update 16 16 \<lparr>x = 225, y = 0\<rparr> 2
        (snd (takeDamage 0 8 2 hostile_heap)))) = Aggressive
   \<and> getState 2 (snd (update 16 16 \<lparr>x = 300, y = 0\<rparr> 2
        (snd (takeDamage 0 8 2 hostile_heap)))) = Idle
   \<and> getState 3 (snd (update 16 16 \<lparr>x = 1000, y = 0\<rparr> 3
        (snd (takeDamage 0 8 3 (guard_heap [\<lparr>x = 0, y = 0\<rparr>, \<lparr>x = 100, y = 0\<rparr>]))))) = Patrol"
proof -
  let ?g = "guard_heap [\<lparr>x = 0, y = 0\<rparr>, \<lparr>x = 100, y = 0\<rparr>]"
  let ?ha = "snd (takeDamage 0 8 2 hostile_heap)"
  let ?ga = "snd (takeDamage 0 8 3 ?g)"
  have a: "this_npc 2 ?ha = (this_npc 2 hostile_heap)\<lparr>state := Aggressive\<rparr>"
    "positions ?ha = positions hostile_heap"
    by (simp_all add: takeDamage_0_npc hostile_npc)
  have b: "this_npc 3 ?ga = (this_npc 3 ?g)\<lparr>state := Aggressive\<rparr>"
    "positions ?ga = positions ?g"
    by (simp_all add: takeDamage_0_npc guard_npc)
  show ?thesis
    using update_transitions [of 2 hostile_heap "\<lparr>x = 100, y = 0\<rparr>" 16 16]
      update_transitions [of 2 hostile_heap "\<lparr>x = 150, y = 0\<rparr>" 16 16]
      update_transitions [of 2 hostile_heap "\<lparr>x = 300, y = 0\<rparr>" 16 16]
      update_transitions [of 3 ?g "\<lparr>x = 1000, y = 0\<rparr>" 16 16]
      update_transitions [of 3 ?g "\<lparr>x = 200, y = 0\<rparr>" 16 16]
      update_transitions [of 2 ?ha "\<lparr>x = 200, y = 0\<rparr>" 16 16]
      update_transitions [of 2 ?ha "\<lparr>x = 225, y = 0\<rparr>" 16 16]
      update_transitions [of 2 ?ha "\<lparr>x = 300, y = 0\<rparr>" 16 16]
      update_transitions [of 3 ?ga "\<lparr>x = 1000, y = 0\<rparr>" 16 16]
    by (simp add: Let_def getState_def a b hostile_npc guard_npc sqrt_squares)
qed

subsection \<open>takeDamage\<close>

text \<open>
  Claim C3, as amended. \<open>takeDamage(amount)\<close> sets the health to
  \<open>max(0, health - amount)\<close>, leaves the actor aggressive, changes no other field of
  it and nothing else in the heap (but the time of the transition, when the state was
  another), and returns true exactly when the health is now 0. With \<open>amount \<ge> health\<close> it
  returns true and the health is exactly 0. On an actor whose health is above 0,
  \<open>takeDamage(0)\<close> returns false and changes nothing but the state, which it forces to
  aggressive (with the time of the transition, when the state was another).
\<close>

theorem takeDamage_effect:
  "let n = this_npc this h;
       c = controllers h this;
       n' = this_npc this (snd (takeDamage amount tnow this h))
   in health n' = max 0 (health n - amount)
    \<and> state n' = Aggressive
    \<and> n' = n\<lparr>health := max 0 (health n - amount), state := Aggressive\<rparr>
    \<and> snd (takeDamage amount tnow this h)
      = (let h1 = h\<lparr>npc_objs := (npc_objs h)(npc c :=
                       n\<lparr>health := max 0 (health n - amount), state := Aggressive\<rparr>)\<rparr>
         in if state n = Aggressive then h1
            else h1\<lparr>controllers := (controllers h)(this := c\<lparr>stateTransitionTime := tnow\<rparr>)\<rparr>)
    \<and> fst (takeDamage amount tnow this h) = (health n' = 0)
    \<and> (health n \<le> amount \<longrightarrow> fst (takeDamage amount tnow this h) \<and> health n' = 0)
    \<and> (0 < health n \<longrightarrow>
         \<not> fst (takeDamage 0 tnow this h)
       \<and> snd (takeDamage 0 tnow this h)
         = (if state n = Aggressive then h
            else h\<lparr>npc_objs := (npc_objs h)(npc c := n\<lparr>state := Aggressive\<rparr>),
                   controllers := (controllers h)(this := c\<lparr>stateTransitionTime := tnow\<rparr>)\<rparr>))"
proof -
  have same: "m\<lparr>health := v, state := Aggressive\<rparr> = m\<lparr>health := v\<rparr>"
    if "state m = Aggressive" for m :: NPC and v
    using that by (cases m) simp
  show ?thesis
    by (auto simp: takeDamage_def transitionTo_def Let_def this_npc_def set_this_npc_def max_def
        same)
qed

text \<open>
  The hostile, with 100 health: 30 damage leaves 70 and returns false, 150 damage leaves 0
  and returns true, 0 damage returns false and leaves 100, in the aggressive state.
\<close>

theorem takeDamage_effect_witness:
  "getHealth 2 hostile_heap = 100
   \<and> getHealth 2 (snd (takeDamage 30 8 2 hostile_heap)) = 70
   \<and> \<not> fst (takeDamage 30 8 2 hostile_heap)
   \<and> getHealth 2 (snd (takeDamage 150 8 2 hostile_heap)) = 0
   \<and> fst (takeDamage 150 8 2 hostile_heap)
   \<and> \<not> fst (takeDamage 0 8 2 hostile_heap)
   \<and> getHealth 2 (snd (takeDamage 0 8 2 hostile_heap)) = 100
   \<and> getState 2 (snd (takeDamage 0 8 2 hostile_heap)) = Aggressive"
  using takeDamage_effect [of 2 hostile_heap 30 8] takeDamage_effect [of 2 hostile_heap 150 8]
    takeDamage_effect [of 2 hostile_heap 0 8]
  by (simp add: Let_def getHealth_def getState_def this_npc_def hostile_heap_eq)

text \<open>
  The claim as it was: \<open>takeDamage(0)\<close> returns false. The hostile after 100 damage has
  0 health, and \<open>takeDamage(0)\<close> on it returns true.
\<close>

theorem takeDamage_effect_counterexample:
  "getHealth 2 (snd (takeDamage 100 8 2 hostile_heap)) = 0
   \<and> fst (takeDamage 0 9 2 (snd (takeDamage 100 8 2 hostile_heap)))"
  by (simp add: takeDamage_def transitionTo_def Let_def getHealth_def hostile_heap_eq
      this_npc_def set_this_npc_def)

subsection \<open>The constructor\<close>

text \<open>
  Claim C8, as amended. The state of a new actor is patrol exactly when its configuration
  has a patrol route, and idle exactly when it has none. The route is taken as it is: the
  array of the configuration, whatever it holds, so an empty route gives patrol as well.
\<close>

theorem constructor_state:
  "let (c, h') = NPCController_new ident pos cfg now h
   in (getState c h' = Patrol \<longleftrightarrow> cfg_patrolPoints cfg \<noteq> None)
    \<and> (getState c h' = Idle \<longleftrightarrow> cfg_patrolPoints cfg = None)
    \<and> patrolPoints (this_npc c h') = cfg_patrolPoints cfg
    \<and> arrays h' = arrays h"
  by (simp add: NPCController_new_eq getState_def this_npc_def)

text \<open>The guard with a route of two waypoints starts on patrol, the hostile idle.\<close>

theorem constructor_state_witness:
  "getState 3 (guard_heap [\<lparr>x = 0, y = 0\<rparr>, \<lparr>x = 100, y = 0\<rparr>]) = Patrol
   \<and> getState 2 hostile_heap = Idle"
  using constructor_state [of "''e1''" "\<lparr>x = 0, y = 0\<rparr>" hostile_config 0 heap0]
    constructor_state [of "''g1''" "\<lparr>x = 0, y = 0\<rparr>" "guard_config 0" 0
      "snd (new_array [\<lparr>x = 0, y = 0\<rparr>, \<lparr>x = 100, y = 0\<rparr>] heap0)"]
  by (simp add: hostile_heap_def guard_heap_def new_array_def NPCController_new_eq
      hostile_config_def guard_config_def heap0_def eval_nat_numeral split: prod.splits)

text \<open>
  The claim as it was: an empty route gives the idle state. The guard spawned with the
  empty route has that route, and is on patrol.
\<close>

theorem constructor_state_counterexample:
  "arrays (guard_heap []) 0 = []
   \<and> patrolPoints (this_npc 3 (guard_heap [])) = Some 0
   \<and> getState 3 (guard_heap []) = Patrol"
  by (simp add: getState_def guard_npc)

subsection \<open>spawnNPC\<close>

text \<open>
  Claim C7, as amended. \<open>spawnNPC\<close> with an id that the registry holds does not fail: it
  returns the controller of a newly built actor, and the registry now holds that controller
  under the id, in the place of the one it held. The registry holds the same ids as before.
\<close>

theorem spawnNPC_existing_id:
  assumes "npcs m ident = Some old"
  shows "let c = Suc (Suc (next_ref h));
             (r, m', h') = spawnNPC ident pos cfg now m h
         in r = Return c
          \<and> (c, h') = NPCController_new ident pos cfg now h
          \<and> npcs m' = (npcs m)(ident \<mapsto> c)
          \<and> dom (npcs m') = dom (npcs m)
          \<and> (old < next_ref h \<longrightarrow> npcs m' ident \<noteq> Some old)"
  using assms by (auto simp: spawnNPC_def NPCController_new_eq)

lemma spawn_once:
  "spawnNPC ''enemy_1'' \<lparr>x = 0, y = 0\<rparr> hostile_config 0 NPCManager_new heap0
   = (Return 2, \<lparr>npcs = [''enemy_1'' \<mapsto> 2]\<rparr>,
      snd (NPCController_new ''enemy_1'' \<lparr>x = 0, y = 0\<rparr> hostile_config 0 heap0))"
  by (simp add: spawnNPC_def NPCController_new_eq NPCManager_new_def heap0_def eval_nat_numeral)

text \<open>
  The id \<open>enemy_1\<close> spawned twice: the registry holds the controller at address 2 after
  the first call and the one at address 5 after the second.
\<close>

theorem spawnNPC_existing_id_witness:
  "npcs (fst (snd (spawnNPC ''enemy_1'' \<lparr>x = 0, y = 0\<rparr> hostile_config 0 NPCManager_new heap0)))
     ''enemy_1'' = Some 2
   \<and> fst spawn_twice = Return 5
   \<and> npcs (fst (snd spawn_twice)) ''enemy_1'' = Some 5"
proof -
  let ?h1 = "snd (NPCController_new ''enemy_1'' \<lparr>x = 0, y = 0\<rparr> hostile_config 0 heap0)"
  have m1: "npcs \<lparr>npcs = [''enemy_1'' \<mapsto> 2]\<rparr> ''enemy_1'' = Some 2" by simp
  have n: "next_ref ?h1 = 3"
    by (simp add: NPCController_new_eq heap0_def eval_nat_numeral)
  show ?thesis
    using spawnNPC_existing_id [OF m1, of ?h1 "\<lparr>x = 50, y = 50\<rparr>"
        "hostile_config\<lparr>cfg_name := ''Hostile 2''\<rparr>" 1]
    by (simp add: spawn_twice_def spawn_once n eval_nat_numeral split: prod.splits)
qed

text \<open>
  The claim as it was: the second call fails. It returns, and the actor under the id is
  now the second one; the first is no longer in the registry.
\<close>

theorem spawnNPC_existing_id_counterexample:
  "fst spawn_twice = Return 5
   \<and> npcs (fst (snd spawn_twice)) ''enemy_1'' = Some 5
   \<and> ran (npcs (fst (snd spawn_twice))) = {5}
   \<and> name (this_npc 2 (snd (snd spawn_twice))) = ''Hostile 1''
   \<and> name (this_npc 5 (snd (snd spawn_twice))) = ''Hostile 2''"
  by (simp add: spawn_twice_def spawn_once spawnNPC_def NPCController_new_eq heap0_def
      hostile_config_def this_npc_def NPCManager_new_def eval_nat_numeral)

subsection \<open>The accessors\<close>

text \<open>
  The snapshot that \<open>getNPC\<close> returns is a new object with the field values of the
  actor, the two references among them.
\<close>

lemma getNPC_shares_references:
  "let (s, h') = getNPC this h
   in s = next_ref h
    \<and> npc_objs h' s = this_npc this h
    \<and> position (npc_objs h' s) = position (this_npc this h)
    \<and> patrolPoints (npc_objs h' s) = patrolPoints (this_npc this h)"
  by (simp add: getNPC_def new_npc_def)

text \<open>
  Claim C9, as amended. \<open>getPosition()\<close> returns a new position object with the
  coordinates of the actor, and \<open>getNPC()\<close> a new object with the field values of the
  actor; neither call changes the actor, and no value that a caller then stores in the
  returned position object, or in a field of the returned snapshot, changes it.
  (\<open>getHealth()\<close> and \<open>getState()\<close> return a number and a state name, which hold no
  reference at all.) The patrol route in the snapshot is the array of the actor, not a
  copy: what a caller stores in it is the route of the actor from then on.
\<close>

theorem accessors_copy:
  assumes "allocated this h"
  shows "let (p, hp) = getPosition this h;
             (s, hs) = getNPC this h
         in positions hp p = positions h (position (this_npc this h))
          \<and> actor_state this hp = actor_state this h
          \<and> actor_state this (hp\<lparr>positions := (positions hp)(p := q)\<rparr>) = actor_state this h
          \<and> npc_objs hs s = this_npc this h
          \<and> actor_state this hs = actor_state this h
          \<and> actor_state this (hs\<lparr>npc_objs := (npc_objs hs)(s := n)\<rparr>) = actor_state this h
          \<and> patrolPoints (npc_objs hs s) = patrolPoints (this_npc this h)
          \<and> (\<forall>a. patrolPoints (npc_objs hs s) = Some a \<longrightarrow>
                snd (snd (snd (actor_state this (hs\<lparr>arrays := (arrays hs)(a := route)\<rparr>))))
                = Some route)"
  using assms
  by (auto simp: getPosition_def getNPC_def new_position_def new_npc_def actor_state_def
      allocated_def this_npc_def)

text \<open>
  The hostile: a write to the position that \<open>getPosition()\<close> returned leaves it as it
  was. The guard: setting the health of the snapshot to 0 leaves it as it was, and the
  route of the snapshot is the array at address 0, the guard's own.
\<close>

theorem accessors_copy_witness:
  "allocated 2 hostile_heap
   \<and> allocated 3 (guard_heap [\<lparr>x = 0, y = 0\<rparr>, \<lparr>x = 100, y = 0\<rparr>])
   \<and> (let (p, hp) = getPosition 2 hostile_heap
      in positions hp p = \<lparr>x = 0, y = 0\<rparr>
       \<and> actor_state 2 (hp\<lparr>positions := (positions hp)(p := \<lparr>x = 100, y = 0\<rparr>)\<rparr>)
         = actor_state 2 hostile_heap)
   \<and> (let (s, hs) = getNPC 3 (guard_heap [\<lparr>x = 0, y = 0\<rparr>, \<lparr>x = 100, y = 0\<rparr>])
      in actor_state 3 (hs\<lparr>npc_objs := (npc_objs hs)(s := (npc_objs hs s)\<lparr>health := 0\<rparr>)\<rparr>)
         = actor_state 3 (guard_heap [\<lparr>x = 0, y = 0\<rparr>, \<lparr>x = 100, y = 0\<rparr>])
       \<and> patrolPoints (npc_objs hs s) = Some 0)"
proof -
  let ?g = "guard_heap [\<lparr>x = 0, y = 0\<rparr>, \<lparr>x = 100, y = 0\<rparr>]"
  have a1: "allocated 2 hostile_heap" by (rule allocated_hostile)
  have a2: "allocated 3 ?g" by (rule allocated_guard)
  show ?thesis
    using a1 a2
      accessors_copy [OF a1, of "\<lparr>x = 100, y = 0\<rparr>" "this_npc 2 hostile_heap" "[]"]
      accessors_copy [OF a2, of "\<lparr>x = 100, y = 0\<rparr>" "(this_npc 3 ?g)\<lparr>health := 0\<rparr>" "[]"]
    by (simp add: case_prod_beta Let_def hostile_npc guard_npc)
qed

text \<open>
  The claim as it was: no mutation of the snapshot, nested fields included, changes the
  actor. A caller that empties the route of the guard's snapshot
  (\<open>snapshot.patrolPoints.length = 0\<close>) has emptied the route of the guard.
\<close>

theorem accessors_copy_counterexample:
  "(let g = guard_heap [\<lparr>x = 0, y = 0\<rparr>, \<lparr>x = 100, y = 0\<rparr>];
        (s, h1) = getNPC 3 g;
        h2 = h1\<lparr>arrays := (arrays h1)(the (patrolPoints (npc_objs h1 s)) := [])\<rparr>
    in snd (snd (snd (actor_state 3 g))) = Some [\<lparr>x = 0, y = 0\<rparr>, \<lparr>x = 100, y = 0\<rparr>]
     \<and> snd (snd (snd (actor_state 3 h2))) = Some [])"
  by (simp add: getNPC_def new_npc_def actor_state_def guard_npc this_npc_def)
    (simp add: guard_heap_eq)

section \<open>The player state\<close>

lemma ammo_inv_step: "ammo_inv s \<Longrightarrow> ammo_inv (gameReducer s a)"
  by (cases a) (auto simp: ammo_inv_def initialState_def Nats_pred split: option.splits)

lemma ammo_inv_foldl: "ammo_inv s \<Longrightarrow> ammo_inv (foldl gameReducer s actions)"
  by (induction actions arbitrary: s) (simp_all add: ammo_inv_step)

lemma ammo_inv_dispatch_all: "ammo_inv (dispatch_all actions)"
  unfolding dispatch_all_def
  by (rule ammo_inv_foldl) (simp add: ammo_inv_def initialState_def)

lemma health_upper_foldl:
  "ammo_inv s \<Longrightarrow> player_health s \<le> 100 \<Longrightarrow> \<forall>a \<in> set actions. damage_nonneg a \<Longrightarrow>
   player_health (foldl gameReducer s actions) \<le> 100"
proof (induction actions arbitrary: s)
  case Nil
  then show ?case by simp
next
  case (Cons a actions)
  have "player_health (gameReducer s a) \<le> 100"
    using Cons.prems
    by (cases a) (auto simp: ammo_inv_def damage_nonneg_def initialState_def split: option.splits)
  with Cons show ?case by (simp add: ammo_inv_step)
qed

lemma health_lower_foldl:
  "ammo_inv s \<Longrightarrow> 0 \<le> player_health s \<Longrightarrow> \<forall>a \<in> set actions. heal_nonneg a \<Longrightarrow>
   0 \<le> player_health (foldl gameReducer s actions)"
proof (induction actions arbitrary: s)
  case Nil
  then show ?case by simp
next
  case (Cons a actions)
  have "0 \<le> player_health (gameReducer s a)"
    using Cons.prems
    by (cases a) (auto simp: ammo_inv_def heal_nonneg_def initialState_def split: option.splits)
  with Cons show ?case by (simp add: ammo_inv_step)
qed

lemma reward_inv_foldl:
  "reward_inv s \<Longrightarrow> \<forall>a \<in> set actions. score_nonneg a \<Longrightarrow>
   reward_inv (foldl gameReducer s actions)"
proof (induction actions arbitrary: s)
  case Nil
  then show ?case by simp
next
  case (Cons a actions)
  have "reward_inv (gameReducer s a)"
    using Cons.prems
    by (cases a) (auto simp: reward_inv_def score_nonneg_def initialState_def split: option.splits)
  with Cons show ?case by simp
qed

lemma score_step:
  assumes "reward_inv s" and "score_nonneg a" and "a \<noteq> RESET"
  shows "score s \<le> score (gameReducer s a)"
  using assms
  by (cases a) (auto simp: reward_inv_def score_nonneg_def split: option.splits)

text \<open>
  Claim C5, as amended. Let \<open>s\<close> be the state that a sequence of actions reaches from the
  initial state. Whatever the actions, \<open>0 \<le> ammo \<le> maxAmmo\<close> in \<open>s\<close>, and \<open>SHOOT\<close>
  with \<open>ammo = 0\<close> gives \<open>s\<close> back, its \<open>ammo\<close> still 0. If no payload of
  \<open>TAKE_DAMAGE\<close> in the sequence is negative, \<open>health \<le> maxHealth\<close>; if no payload of
  \<open>HEAL\<close> is negative, \<open>0 \<le> health\<close>. If no payload of \<open>ADD_SCORE\<close> and no reward of a
  mission set is negative, in the sequence and in one more action other than \<open>RESET\<close>,
  that action does not lower the score.
\<close>

theorem reducer_invariant:
  "let s = dispatch_all actions
   in 0 \<le> ammo s \<and> ammo s \<le> maxAmmo s
    \<and> (ammo s = 0 \<longrightarrow> gameReducer s SHOOT = s \<and> ammo (gameReducer s SHOOT) = 0)
    \<and> ((\<forall>b \<in> set actions. damage_nonneg b) \<longrightarrow> player_health s \<le> player_maxHealth s)
    \<and> ((\<forall>b \<in> set actions. heal_nonneg b) \<longrightarrow> 0 \<le> player_health s)
    \<and> ((\<forall>b \<in> set actions. score_nonneg b) \<and> score_nonneg a \<and> a \<noteq> RESET
         \<longrightarrow> score s \<le> score (gameReducer s a))"
proof -
  have inv: "ammo_inv (dispatch_all actions)"
    by (rule ammo_inv_dispatch_all)
  then have ammo: "0 \<le> ammo (dispatch_all actions)"
    "ammo (dispatch_all actions) \<le> maxAmmo (dispatch_all actions)"
    by (simp_all add: ammo_inv_def Nats_nonneg_real)
  have init: "ammo_inv initialState" "player_health initialState \<le> 100"
    "0 \<le> player_health initialState" "reward_inv initialState"
    by (simp_all add: ammo_inv_def reward_inv_def initialState_def)
  have upper: "player_health (dispatch_all actions) \<le> player_maxHealth (dispatch_all actions)"
    if "\<forall>b \<in> set actions. damage_nonneg b"
    using health_upper_foldl [OF init(1) init(2) that] inv
    by (simp add: dispatch_all_def ammo_inv_def)
  have lower: "0 \<le> player_health (dispatch_all actions)"
    if "\<forall>b \<in> set actions. heal_nonneg b"
    using health_lower_foldl [OF init(1) init(3) that] by (simp add: dispatch_all_def)
  have score: "score (dispatch_all actions) \<le> score (gameReducer (dispatch_all actions) a)"
    if "\<forall>b \<in> set actions. score_nonneg b" and "score_nonneg a" and "a \<noteq> RESET"
  proof -
    have "reward_inv (dispatch_all actions)"
      unfolding dispatch_all_def using init(4) that(1) by (rule reward_inv_foldl)
    then show ?thesis using that(2,3) by (rule score_step)
  qed
  show ?thesis
    unfolding Let_def using ammo upper lower score by simp
qed

text \<open>
  Thirty shots, 40 damage and a heal of 100: the magazine is empty and a further
  \<open>SHOOT\<close> leaves it so, the health is back at 100, and \<open>ADD_SCORE(5)\<close> does not lower
  the score.
\<close>

theorem reducer_invariant_witness:
  "damage_nonneg SHOOT \<and> damage_nonneg (TAKE_DAMAGE 40) \<and> damage_nonneg (HEAL 100)
   \<and> heal_nonneg SHOOT \<and> heal_nonneg (TAKE_DAMAGE 40) \<and> heal_nonneg (HEAL 100)
   \<and> score_nonneg SHOOT \<and> score_nonneg (TAKE_DAMAGE 40) \<and> score_nonneg (HEAL 100)
   \<and> score_nonneg (ADD_SCORE 5) \<and> ADD_SCORE 5 \<noteq> RESET
   \<and> ammo (dispatch_all (replicate 30 SHOOT @ [TAKE_DAMAGE 40, HEAL 100])) = 0
   \<and> player_health (dispatch_all (replicate 30 SHOOT @ [TAKE_DAMAGE 40, HEAL 100])) = 100
   \<and> ammo (gameReducer (dispatch_all (replicate 30 SHOOT @ [TAKE_DAMAGE 40, HEAL 100])) SHOOT) = 0
   \<and> score (dispatch_all (replicate 30 SHOOT @ [TAKE_DAMAGE 40, HEAL 100]))
     \<le> score (gameReducer (dispatch_all (replicate 30 SHOOT @ [TAKE_DAMAGE 40, HEAL 100]))
                (ADD_SCORE 5))"
proof -
  let ?as = "replicate 30 SHOOT @ [TAKE_DAMAGE 40, HEAL 100]"
  have h: "\<forall>b \<in> set ?as. damage_nonneg b" "\<forall>b \<in> set ?as. heal_nonneg b"
    "\<forall>b \<in> set ?as. score_nonneg b"
    by (simp_all add: damage_nonneg_def heal_nonneg_def score_nonneg_def)
  have s: "dispatch_all ?as = initialState\<lparr>ammo := 0\<rparr>"
    by (simp add: dispatch_all_def initialState_def eval_nat_numeral)
  show ?thesis
    using h reducer_invariant [of ?as "ADD_SCORE 5"]
    unfolding s Let_def
    by (simp add: damage_nonneg_def heal_nonneg_def score_nonneg_def initialState_def)
qed

text \<open>
  The claim as it was, for every sequence of actions: \<open>TAKE_DAMAGE(-50)\<close> from the
  initial state gives a health of 150, above \<open>maxHealth\<close>; \<open>HEAL(-200)\<close> gives a health
  of -100; \<open>ADD_SCORE(-10)\<close> lowers the score, and so does completing a mission whose
  reward is -5.
\<close>

theorem reducer_invariant_counterexample:
  "player_maxHealth (dispatch_all [TAKE_DAMAGE (- 50)])
     < player_health (dispatch_all [TAKE_DAMAGE (- 50)])
   \<and> player_health (dispatch_all [HEAL (- 200)]) < 0
   \<and> score (gameReducer (dispatch_all [ADD_SCORE 10]) (ADD_SCORE (- 10)))
     < score (dispatch_all [ADD_SCORE 10])
   \<and> score (gameReducer
        (dispatch_all [SET_MISSION \<lparr>mission_id = ''m1'', title = ''Raid'',
             objective = ''Take the depot'', reward = - 5, targetNPC = ''Enemy Commander''\<rparr>])
        COMPLETE_MISSION)
     < score (dispatch_all [SET_MISSION \<lparr>mission_id = ''m1'', title = ''Raid'',
             objective = ''Take the depot'', reward = - 5, targetNPC = ''Enemy Commander''\<rparr>])"
  by (simp add: dispatch_all_def initialState_def)

text \<open>
  Claim C6. \<open>COMPLETE_MISSION\<close> on a state with a current mission \<open>m\<close> gives the state
  with \<open>reward m\<close> added to the score and no current mission, every other field as it
  was; on a state with no current mission it gives the state back. So \<open>SET_MISSION(m)\<close>
  followed by \<open>COMPLETE_MISSION\<close> raises the score by exactly \<open>reward m\<close> and leaves
  no current mission.
\<close>

theorem complete_mission:
  "(currentMission s = Some m \<longrightarrow>
      gameReducer s COMPLETE_MISSION = s\<lparr>score := score s + reward m, currentMission := None\<rparr>)
   \<and> (currentMission s = None \<longrightarrow> gameReducer s COMPLETE_MISSION = s)
   \<and> gameReducer (gameReducer s (SET_MISSION m)) COMPLETE_MISSION
     = s\<lparr>score := score s + reward m, currentMission := None\<rparr>"
  by simp

text \<open>
  The initial state with a mission of reward 500 set, and the initial state as it is.
\<close>

theorem complete_mission_witness:
  "currentMission (initialState\<lparr>currentMission :=
       Some \<lparr>mission_id = ''m1'', title = ''Raid'', objective = ''Take the depot'', reward = 500,
             targetNPC = ''Enemy Commander''\<rparr>\<rparr>)
     = Some \<lparr>mission_id = ''m1'', title = ''Raid'', objective = ''Take the depot'', reward = 500,
             targetNPC = ''Enemy Commander''\<rparr>
   \<and> score (gameReducer (initialState\<lparr>currentMission :=
       Some \<lparr>mission_id = ''m1'', title = ''Raid'', objective = ''Take the depot'', reward = 500,
             targetNPC = ''Enemy Commander''\<rparr>\<rparr>) COMPLETE_MISSION) = 500
   \<and> currentMission initialState = None
   \<and> gameReducer initialState COMPLETE_MISSION = initialState"
proof -
  let ?m = "\<lparr>mission_id = ''m1'', title = ''Raid'', objective = ''Take the depot'', reward = 500,
             targetNPC = ''Enemy Commander''\<rparr>"
  show ?thesis
    using complete_mission [of "initialState\<lparr>currentMission := Some ?m\<rparr>" ?m]
      complete_mission [of initialState ?m]
    by (simp add: initialState_def)
qed

end
